theory Spec2Isabelle
  imports Main
begin

section \<open>Values exchanged with the inventory service\<close>

text \<open>
  Items, queries, update documents, options, pipelines and response bodies are plain
  JavaScript values that the client passes through without looking inside. They are
  modelled as JSON trees; an object keeps its keys in insertion order, as
  \<^verbatim>\<open>JSON.stringify\<close> sees them.
\<close>

datatype json =
    JNull
  | JBool bool
  | JNum int
  | JStr string
  | JArr "json list"
  | JObj "(string \<times> json) list"

type_synonym obj = "(string \<times> json) list"

text \<open>
  Assigning a property of an object: an existing key keeps its position and takes the
  new value, a new key goes to the end.
\<close>

fun obj_set :: "string \<Rightarrow> json \<Rightarrow> obj \<Rightarrow> obj" where
  "obj_set k v [] = [(k, v)]"
| "obj_set k v ((k', v') # kvs) =
     (if k' = k then (k, v) # kvs else (k', v') # obj_set k v kvs)"

text \<open>
  Reading a property \<^verbatim>\<open>x.k\<close> of a value that is not \<^verbatim>\<open>null\<close>: \<open>None\<close> is
  \<^verbatim>\<open>undefined\<close>. Only objects carry the keys read by the client
  (\<^verbatim>\<open>error\<close>, \<^verbatim>\<open>message\<close>).
\<close>

fun get_prop :: "json \<Rightarrow> string \<Rightarrow> json option" where
  "get_prop (JObj kvs) k = map_of kvs k"
| "get_prop _ k = None"

section \<open>Thrown values, the platform and the network\<close>

text \<open>
  A thrown JavaScript error has a class name and a message. \<^verbatim>\<open>new Error(m)\<close> is
  \<open>new_Error m\<close>; the platform throws errors of other classes (\<^verbatim>\<open>TypeError\<close>,
  \<^verbatim>\<open>SyntaxError\<close>).
\<close>

datatype js_error = JsError (error_name: string) (error_message: string)

definition new_Error :: "string \<Rightarrow> js_error" where
  "new_Error m = JsError ''Error'' m"

record credentials =
  apiKeyId :: string
  apiSecret :: string
  apiPublicKey :: string

record client = credentials +
  apiBaseUrl :: string

text \<open>
  The text \<^verbatim>\<open>JSON.stringify(v)\<close> of a JSON tree \<open>v\<close>: the serialisation keeps the
  order of elements and keys, so the text is identified by the tree it was made from.
\<close>

datatype json_text = JSON_stringify json

text \<open>The arguments of one \<^verbatim>\<open>fetch(url, {method, body, headers})\<close> call.\<close>

record http_request =
  url :: string
  request_method :: string
  body :: "json_text option"
  headers :: "(string \<times> string) list"

text \<open>
  A \<^verbatim>\<open>Response\<close>: the fields the client reads, and what awaiting
  \<^verbatim>\<open>response.json()\<close> gives (the parsed body, or the parser's error).
\<close>

record response =
  ok :: bool
  status :: int
  statusText :: string
  json_result :: "js_error + json"

datatype fetch_outcome = FetchThrows js_error | FetchResponds response

text \<open>
  What the client calls and does not define: \<^verbatim>\<open>signRequest\<close> (imported from
  \<^verbatim>\<open>utils\<close>, which may throw), the string conversion done by the
  \<^verbatim>\<open>Error\<close> constructor, \<^verbatim>\<open>fetch\<close>, and JavaScript's reading of
  \<^verbatim>\<open>x.length\<close> and \<^verbatim>\<open>x[0]\<close> on a value that is not an array. They are
  parameters of the model. What \<^verbatim>\<open>console.error\<close> prints is not modelled.
\<close>

record platform =
  signRequest :: "credentials \<Rightarrow> json list \<Rightarrow> js_error + string"
  ToString :: "json \<Rightarrow> string"
  fetch :: "http_request \<Rightarrow> fetch_outcome"
  untyped_first :: "json \<Rightarrow> js_error + json"

text \<open>
  An asynchronous call is a function of the log of requests handed to \<^verbatim>\<open>fetch\<close> so
  far; it returns how its promise settles (\<open>Inl\<close> rejected, \<open>Inr\<close> fulfilled) and the
  log afterwards.
\<close>

type_synonym net = "http_request list"
type_synonym 'a io = "net \<Rightarrow> (js_error + 'a) \<times> net"

section \<open>Construction\<close>

text \<open>
  \<^verbatim>\<open>constructor({apiKeyId, apiSecret, apiPublicKey, apiBaseUrl = 'https://inventory.rauk.app'})\<close>
  of \<^verbatim>\<open>RaukInventoryClient\<close> (core/rauk-client.ts) and of \<^verbatim>\<open>RaukInventory\<close>
  (index.ts). A string is falsy exactly when it is empty; the default applies when
  \<^verbatim>\<open>apiBaseUrl\<close> is \<^verbatim>\<open>undefined\<close>. Neither class has a static field.
\<close>

definition new_RaukInventoryClient ::
  "string \<Rightarrow> string \<Rightarrow> string \<Rightarrow> string option \<Rightarrow> client io" where
  "new_RaukInventoryClient keyId secret publicKey baseUrl net =
     (if keyId = [] \<or> secret = [] \<or> publicKey = []
      then (Inl (new_Error ''apiKeyId, apiSecret and apiPublicKey are required''), net)
      else (Inr \<lparr> apiKeyId = keyId, apiSecret = secret, apiPublicKey = publicKey,
                  apiBaseUrl = (case baseUrl of None \<Rightarrow> ''https://inventory.rauk.app''
                                | Some u \<Rightarrow> u) \<rparr>, net))"

definition new_RaukInventory ::
  "string \<Rightarrow> string \<Rightarrow> string \<Rightarrow> string option \<Rightarrow> client io" where
  "new_RaukInventory keyId secret publicKey baseUrl net =
     (if keyId = [] \<or> secret = [] \<or> publicKey = []
      then (Inl (new_Error ''apiKeyId, apiSecret and apiPublicKey are required''), net)
      else (Inr \<lparr> apiKeyId = keyId, apiSecret = secret, apiPublicKey = publicKey,
                  apiBaseUrl = (case baseUrl of None \<Rightarrow> ''https://inventory.rauk.app''
                                | Some u \<Rightarrow> u) \<rparr>, net))"

text \<open>Two statements in sequence; a throw in the first skips the second.\<close>

definition and_then :: "'a io \<Rightarrow> ('a \<Rightarrow> 'b io) \<Rightarrow> 'b io" where
  "and_then m f net =
     (case m net of
        (Inl e, net') \<Rightarrow> (Inl e, net')
      | (Inr x, net') \<Rightarrow> f x net')"

section \<open>The request method\<close>

text \<open>
  How the \<^verbatim>\<open>try\<close> block ends: with a throw, which the \<^verbatim>\<open>catch\<close> block
  receives, or with \<^verbatim>\<open>return response.json()\<close>. That promise is returned without
  \<^verbatim>\<open>await\<close>, so the block has been left when it settles and its rejection is the
  rejection of the call.
\<close>

datatype completion = Throw js_error | Return "js_error + json"

text \<open>
  \<^verbatim>\<open>throw new Error(jsonError.error?.message)\<close>: reading \<^verbatim>\<open>.error\<close> of
  \<^verbatim>\<open>null\<close> throws a \<^verbatim>\<open>TypeError\<close>; a missing or \<^verbatim>\<open>null\<close>
  \<^verbatim>\<open>error\<close> makes the message \<^verbatim>\<open>undefined\<close>, which the constructor
  turns into the empty message.
\<close>

definition error_from_body :: "platform \<Rightarrow> json \<Rightarrow> js_error" where
  "error_from_body P jsonError =
     (if jsonError = JNull
      then JsError ''TypeError'' ''Cannot read properties of null''
      else (case get_prop jsonError ''error'' of
              None \<Rightarrow> new_Error []
            | Some JNull \<Rightarrow> new_Error []
            | Some e \<Rightarrow> (case get_prop e ''message'' of
                           None \<Rightarrow> new_Error []
                         | Some m \<Rightarrow> new_Error (ToString P m))))"

definition signature_request :: "client \<Rightarrow> string \<Rightarrow> json_text \<Rightarrow> http_request" where
  "signature_request this signedRequest payload =
     \<lparr> url = apiBaseUrl this @ ''/query'',
       request_method = ''POST'',
       body = Some payload,
       headers = [(''Rai-Signature'', signedRequest),
                  (''Content-Type'', ''application/json'')] \<rparr>"

definition try_block :: "platform \<Rightarrow> http_request \<Rightarrow> completion" where
  "try_block P req =
     (case fetch P req of
        FetchThrows e \<Rightarrow> Throw e
      | FetchResponds response \<Rightarrow>
          if \<not> ok response
          then (case json_result response of
                  Inl e \<Rightarrow> Throw e
                | Inr jsonError \<Rightarrow> Throw (error_from_body P jsonError))
          else Return (json_result response))"

definition catch_block :: "completion \<Rightarrow> js_error + json" where
  "catch_block c =
     (case c of
        Throw error \<Rightarrow> Inl (new_Error ''Failed to request'')
      | Return promise \<Rightarrow> promise)"

text \<open>\<^verbatim>\<open>RaukInventoryClient.request\<close>, core/rauk-client.ts. Signing is outside \<^verbatim>\<open>try\<close>.\<close>

definition RaukInventoryClient_request :: "platform \<Rightarrow> client \<Rightarrow> json list \<Rightarrow> json io" where
  "RaukInventoryClient_request P this requestArray net =
     (case signRequest P \<lparr> apiKeyId = apiKeyId this, apiSecret = apiSecret this,
                            apiPublicKey = apiPublicKey this \<rparr> requestArray of
        Inl e \<Rightarrow> (Inl e, net)
      | Inr signedRequest \<Rightarrow>
          (let req = signature_request this signedRequest (JSON_stringify (JArr requestArray))
           in (catch_block (try_block P req), net @ [req])))"

text \<open>\<^verbatim>\<open>RaukInventory.request\<close>, index.ts: the same statements.\<close>

definition RaukInventory_request :: "platform \<Rightarrow> client \<Rightarrow> json list \<Rightarrow> json io" where
  "RaukInventory_request P this requestArray net =
     (case signRequest P \<lparr> apiKeyId = apiKeyId this, apiSecret = apiSecret this,
                            apiPublicKey = apiPublicKey this \<rparr> requestArray of
        Inl e \<Rightarrow> (Inl e, net)
      | Inr signedRequest \<Rightarrow>
          (let req = signature_request this signedRequest (JSON_stringify (JArr requestArray))
           in (catch_block (try_block P req), net @ [req])))"

text \<open>
  The second \<^verbatim>\<open>RaukInventory\<close> held by index.ts: its \<^verbatim>\<open>fetch\<close> call has
  \<^verbatim>\<open>method\<close> and \<^verbatim>\<open>headers\<close> only, the signature goes into
  \<^verbatim>\<open>Authorization: Bearer\<close>, and a response that is not ok throws the fixed error
  without reading the body.
\<close>

definition bearer_request :: "client \<Rightarrow> string \<Rightarrow> http_request" where
  "bearer_request this signedRequest =
     \<lparr> url = apiBaseUrl this @ ''/query'',
       request_method = ''POST'',
       body = None,
       headers = [(''Authorization'', ''Bearer '' @ signedRequest),
                  (''Content-Type'', ''application/json'')] \<rparr>"

definition try_block_rev2 :: "platform \<Rightarrow> http_request \<Rightarrow> completion" where
  "try_block_rev2 P req =
     (case fetch P req of
        FetchThrows e \<Rightarrow> Throw e
      | FetchResponds response \<Rightarrow>
          if \<not> ok response
          then Throw (new_Error ''Failed to request'')
          else Return (json_result response))"

definition RaukInventory_request_rev2 :: "platform \<Rightarrow> client \<Rightarrow> json list \<Rightarrow> json io" where
  "RaukInventory_request_rev2 P this requestArray net =
     (case signRequest P \<lparr> apiKeyId = apiKeyId this, apiSecret = apiSecret this,
                            apiPublicKey = apiPublicKey this \<rparr> requestArray of
        Inl e \<Rightarrow> (Inl e, net)
      | Inr signedRequest \<Rightarrow>
          (let req = bearer_request this signedRequest
           in (catch_block (try_block_rev2 P req), net @ [req])))"

section \<open>The operations\<close>

text \<open>
  Every method builds \<^verbatim>\<open>requestArray\<close> with \<^verbatim>\<open>options ? [...] : [...]\<close> and
  hands it to \<^verbatim>\<open>this.request\<close>. \<^verbatim>\<open>options\<close> is an object (truthy, also when it
  has no key) or \<^verbatim>\<open>undefined\<close> (\<open>None\<close>). The methods below have the same text in
  \<^verbatim>\<open>RaukInventoryClient\<close> and in both \<^verbatim>\<open>RaukInventory\<close> classes, so they take
  the class's \<^verbatim>\<open>request\<close> as their first argument.
\<close>

definition create_requestArray :: "json \<Rightarrow> obj option \<Rightarrow> json list" where
  "create_requestArray item options =
     (case options of
        Some opts \<Rightarrow> [JStr ''insertOne'', item, JObj opts]
      | None \<Rightarrow> [JStr ''insertOne'', item])"

definition create :: "(json list \<Rightarrow> json io) \<Rightarrow> json \<Rightarrow> obj option \<Rightarrow> json io" where
  "create request item options = request (create_requestArray item options)"

definition find_requestArray :: "json \<Rightarrow> obj option \<Rightarrow> json list" where
  "find_requestArray query options =
     (case options of
        Some opts \<Rightarrow> [JStr ''find'', query, JObj opts]
      | None \<Rightarrow> [JStr ''find'', query])"

definition find :: "(json list \<Rightarrow> json io) \<Rightarrow> json \<Rightarrow> obj option \<Rightarrow> json io" where
  "find request query options = request (find_requestArray query options)"

text \<open>\<^verbatim>\<open>{ ...options, limit: 1 }\<close>; spreading \<^verbatim>\<open>undefined\<close> adds no key.\<close>

definition findOne_options :: "obj option \<Rightarrow> obj" where
  "findOne_options options =
     obj_set ''limit'' (JNum 1) (case options of None \<Rightarrow> [] | Some opts \<Rightarrow> opts)"

text \<open>
  \<^verbatim>\<open>results.length > 0 ? results[0] : null\<close>. \<^verbatim>\<open>find\<close> is declared to resolve to
  \<^verbatim>\<open>InventoryItem[]\<close>; on a value that is not an array the platform decides.
\<close>

definition first_or_null :: "platform \<Rightarrow> json \<Rightarrow> js_error + json" where
  "first_or_null P results =
     (case results of
        JArr xs \<Rightarrow> Inr (if length xs > 0 then xs ! 0 else JNull)
      | _ \<Rightarrow> untyped_first P results)"

definition findOne ::
  "platform \<Rightarrow> (json list \<Rightarrow> json io) \<Rightarrow> json \<Rightarrow> obj option \<Rightarrow> json io" where
  "findOne P request query options =
     and_then (find request query (Some (findOne_options options)))
       (\<lambda>results net. (first_or_null P results, net))"

text \<open>\<^verbatim>\<open>findFlexible\<close> and \<^verbatim>\<open>findOneFlexible\<close>, first \<^verbatim>\<open>RaukInventory\<close> only.\<close>

definition findFlexible :: "(json list \<Rightarrow> json io) \<Rightarrow> json \<Rightarrow> obj option \<Rightarrow> json io" where
  "findFlexible request query options =
     request (case options of
                Some opts \<Rightarrow> [JStr ''find'', query, JObj opts]
              | None \<Rightarrow> [JStr ''find'', query])"

definition findOneFlexible ::
  "platform \<Rightarrow> (json list \<Rightarrow> json io) \<Rightarrow> json \<Rightarrow> obj option \<Rightarrow> json io" where
  "findOneFlexible P request query options =
     and_then (findFlexible request query (Some (findOne_options options)))
       (\<lambda>results net. (first_or_null P results, net))"

definition update_requestArray :: "json \<Rightarrow> json \<Rightarrow> obj option \<Rightarrow> json list" where
  "update_requestArray query upd options =
     (case options of
        Some opts \<Rightarrow> [JStr ''findOneAndUpdate'', query, upd, JObj opts]
      | None \<Rightarrow> [JStr ''findOneAndUpdate'', query, upd])"

definition update ::
  "(json list \<Rightarrow> json io) \<Rightarrow> json \<Rightarrow> json \<Rightarrow> obj option \<Rightarrow> json io" where
  "update request query upd options = request (update_requestArray query upd options)"

definition delete_requestArray :: "json \<Rightarrow> obj option \<Rightarrow> json list" where
  "delete_requestArray query options =
     (case options of
        Some opts \<Rightarrow> [JStr ''findOneAndUpdate'', query,
                      JObj [(''deleted'', JObj [(''status'', JBool True)])], JObj opts]
      | None \<Rightarrow> [JStr ''findOneAndUpdate'', query,
                 JObj [(''deleted'', JObj [(''status'', JBool True)])]])"

definition delete :: "(json list \<Rightarrow> json io) \<Rightarrow> json \<Rightarrow> obj option \<Rightarrow> json io" where
  "delete request query options = request (delete_requestArray query options)"

text \<open>
  \<^verbatim>\<open>aggregate\<close> sends \<^verbatim>\<open>pipeline\<close>; in the second \<^verbatim>\<open>RaukInventory\<close> the
  argument is a DTO and the method sends its \<^verbatim>\<open>pipeline\<close> field.
\<close>

definition aggregate_requestArray :: "json \<Rightarrow> obj option \<Rightarrow> json list" where
  "aggregate_requestArray pipeline options =
     (case options of
        Some opts \<Rightarrow> [JStr ''aggregate'', pipeline, JObj opts]
      | None \<Rightarrow> [JStr ''aggregate'', pipeline])"

definition aggregate :: "(json list \<Rightarrow> json io) \<Rightarrow> json \<Rightarrow> obj option \<Rightarrow> json io" where
  "aggregate request pipeline options = request (aggregate_requestArray pipeline options)"

record OperationAggregateDto_rev2 =
  pipeline :: json

definition aggregate_rev2 ::
  "(json list \<Rightarrow> json io) \<Rightarrow> OperationAggregateDto_rev2 \<Rightarrow> obj option \<Rightarrow> json io" where
  "aggregate_rev2 request dto options =
     request (case options of
                Some opts \<Rightarrow> [JStr ''aggregate'', pipeline dto, JObj opts]
              | None \<Rightarrow> [JStr ''aggregate'', pipeline dto])"

definition bulkWrite_requestArray :: "json \<Rightarrow> obj option \<Rightarrow> json list" where
  "bulkWrite_requestArray operations options =
     (case options of
        Some opts \<Rightarrow> [JStr ''bulkWrite'', operations, JObj opts]
      | None \<Rightarrow> [JStr ''bulkWrite'', operations])"

definition bulkWrite :: "(json list \<Rightarrow> json io) \<Rightarrow> json \<Rightarrow> obj option \<Rightarrow> json io" where
  "bulkWrite request operations options =
     request (bulkWrite_requestArray operations options)"

definition updateMany_requestArray :: "json \<Rightarrow> json \<Rightarrow> obj option \<Rightarrow> json list" where
  "updateMany_requestArray query upd options =
     (case options of
        Some opts \<Rightarrow> [JStr ''updateMany'', query, upd, JObj opts]
      | None \<Rightarrow> [JStr ''updateMany'', query, upd])"

definition updateMany ::
  "(json list \<Rightarrow> json io) \<Rightarrow> json \<Rightarrow> json \<Rightarrow> obj option \<Rightarrow> json io" where
  "updateMany request query upd options =
     request (updateMany_requestArray query upd options)"

definition deleteOne_requestArray :: "json \<Rightarrow> obj option \<Rightarrow> json list" where
  "deleteOne_requestArray query options =
     (case options of
        Some opts \<Rightarrow> [JStr ''deleteOne'', query, JObj opts]
      | None \<Rightarrow> [JStr ''deleteOne'', query])"

definition deleteOne :: "(json list \<Rightarrow> json io) \<Rightarrow> json \<Rightarrow> obj option \<Rightarrow> json io" where
  "deleteOne request query options = request (deleteOne_requestArray query options)"

definition deleteMany_requestArray :: "json \<Rightarrow> obj option \<Rightarrow> json list" where
  "deleteMany_requestArray query options =
     (case options of
        Some opts \<Rightarrow> [JStr ''deleteMany'', query, JObj opts]
      | None \<Rightarrow> [JStr ''deleteMany'', query])"

definition deleteMany :: "(json list \<Rightarrow> json io) \<Rightarrow> json \<Rightarrow> obj option \<Rightarrow> json io" where
  "deleteMany request query options = request (deleteMany_requestArray query options)"

text \<open>
  \<^verbatim>\<open>updateBatch\<close> of \<^verbatim>\<open>RaukInventoryClient\<close>:
  \<^verbatim>\<open>updates.map(([query, update]) => ({updateOne: {filter: query, update: update}}))\<close>.
\<close>

definition RaukInventoryClient_bulkOperations :: "(json \<times> json) list \<Rightarrow> json list" where
  "RaukInventoryClient_bulkOperations updates =
     map (\<lambda>(query, upd).
            JObj [(''updateOne'', JObj [(''filter'', query), (''update'', upd)])]) updates"

definition RaukInventoryClient_updateBatch ::
  "(json list \<Rightarrow> json io) \<Rightarrow> (json \<times> json) list \<Rightarrow> obj option \<Rightarrow> json io" where
  "RaukInventoryClient_updateBatch request updates options =
     bulkWrite request (JArr (RaukInventoryClient_bulkOperations updates)) options"

text \<open>
  \<^verbatim>\<open>updateBatch\<close> of the first \<^verbatim>\<open>RaukInventory\<close>:
  \<^verbatim>\<open>updates.map(([query, update]) => ({updateOne: {filter: query, update: { update }}}))\<close>.
\<close>

definition RaukInventory_bulkOperations :: "(json \<times> json) list \<Rightarrow> json list" where
  "RaukInventory_bulkOperations updates =
     map (\<lambda>(query, upd).
            JObj [(''updateOne'',
                   JObj [(''filter'', query), (''update'', JObj [(''update'', upd)])])]) updates"

definition RaukInventory_updateBatch ::
  "(json list \<Rightarrow> json io) \<Rightarrow> (json \<times> json) list \<Rightarrow> obj option \<Rightarrow> json io" where
  "RaukInventory_updateBatch request updates options =
     bulkWrite request (JArr (RaukInventory_bulkOperations updates)) options"

section \<open>Fixtures of the test suite\<close>

text \<open>
  The configuration, the mocked \<^verbatim>\<open>fetch\<close> results and the arguments that
  tests/index.test.ts uses. The signer of the fixtures returns a fixed signature.
\<close>

definition test_client :: client where
  "test_client = \<lparr> apiKeyId = ''test-key'', apiSecret = ''test-secret'',
                   apiPublicKey = ''test-public'',
                   apiBaseUrl = ''https://inventory.rauk.local'' \<rparr>"

definition mock_platform :: "fetch_outcome \<Rightarrow> platform" where
  "mock_platform outcome =
     \<lparr> signRequest = (\<lambda>creds requestArray. Inr ''test-signature''),
       ToString = (\<lambda>v. case v of JStr s \<Rightarrow> s | _ \<Rightarrow> []),
       fetch = (\<lambda>req. outcome),
       untyped_first = (\<lambda>v. Inr JNull) \<rparr>"

definition item_001 :: json where
  "item_001 = JObj [(''sku'', JStr ''ITEM-001''), (''packageQuantity'', JNum 10)]"

definition found_items :: fetch_outcome where
  "found_items = FetchResponds \<lparr> ok = True, status = 200, statusText = ''OK'',
                                 json_result = Inr (JArr [item_001]) \<rparr>"

definition found_nothing :: fetch_outcome where
  "found_nothing = FetchResponds \<lparr> ok = True, status = 200, statusText = ''OK'',
                                   json_result = Inr (JArr []) \<rparr>"

definition validation_body :: json where
  "validation_body =
     JObj [(''success'', JBool False),
           (''error'', JObj [
              (''errors'', JArr [
                 JObj [(''property'', JStr ''brandDetails''),
                       (''constraints'',
                        JArr [JStr ''brandDetails should not be null or undefined'']),
                       (''children'', JArr [])],
                 JObj [(''property'', JStr ''factoryDetails''),
                       (''constraints'',
                        JArr [JStr ''factoryDetails should not be null or undefined'']),
                       (''children'', JArr [])]]),
              (''name'', JStr ''ValidationException'')])]"

definition validation_failure :: fetch_outcome where
  "validation_failure = FetchResponds \<lparr> ok = False, status = 400, statusText = ''Bad Request'',
                                        json_result = Inr validation_body \<rparr>"

definition server_failure :: fetch_outcome where
  "server_failure =
     FetchResponds \<lparr> ok = False, status = 500, statusText = ''Internal Server Error'',
       json_result = Inr (JObj [(''success'', JBool False),
                                (''error'', JObj [(''message'', JStr ''Internal server error''),
                                                  (''name'', JStr ''ServerError'')])]) \<rparr>"

definition fetch_failed :: fetch_outcome where
  "fetch_failed = FetchThrows (JsError ''TypeError'' ''fetch failed'')"

definition unparseable_success :: fetch_outcome where
  "unparseable_success =
     FetchResponds \<lparr> ok = True, status = 200, statusText = ''OK'',
       json_result = Inl (JsError ''SyntaxError'' ''Unexpected end of JSON input'') \<rparr>"

definition sku_query :: "string \<Rightarrow> json" where
  "sku_query sku = JObj [(''sku'', JStr sku)]"

text \<open>The command tuple that a logged request carries in its body.\<close>

definition sent_tuple :: "http_request \<Rightarrow> json list" where
  "sent_tuple req = (case body req of Some (JSON_stringify (JArr tuple)) \<Rightarrow> tuple | _ \<Rightarrow> [])"

section \<open>Properties of objects and of the result selection\<close>

lemma map_of_obj_set_same: "map_of (obj_set k v kvs) k = Some v"
  by (induction kvs) auto

lemma map_of_obj_set_other: "k' \<noteq> k \<Longrightarrow> map_of (obj_set k v kvs) k' = map_of kvs k'"
  by (induction kvs) auto

lemma findOne_options_keeps_other_keys:
  "k \<noteq> ''limit'' \<Longrightarrow> map_of (findOne_options (Some opts)) k = map_of opts k"
  by (simp add: findOne_options_def map_of_obj_set_other)

lemma first_or_null_array:
  "first_or_null P (JArr xs) = Inr (if xs = [] then JNull else hd xs)"
  by (cases xs) (simp_all add: first_or_null_def)

section \<open>findOne and findOneFlexible\<close>

text \<open>
  Claim C3. Whatever options the caller passes (none, or an object with or without a
  \<^verbatim>\<open>limit\<close>), \<^verbatim>\<open>findOne\<close> calls \<^verbatim>\<open>find\<close> with an options object whose
  \<^verbatim>\<open>limit\<close> is 1, so the class's \<^verbatim>\<open>request\<close> receives the tuple
  \<^verbatim>\<open>["find", query, {...options, limit: 1}]\<close>. When that request resolves to an
  array, \<^verbatim>\<open>findOne\<close> and \<^verbatim>\<open>findOneFlexible\<close> resolve to its first element, and
  to \<^verbatim>\<open>null\<close> when the array is empty; they do not reject.
\<close>

theorem C3_findOne_limit_one_first_or_null:
  "map_of (findOne_options options) ''limit'' = Some (JNum 1)
   \<and> findOne P request query options =
       and_then (find request query (Some (findOne_options options)))
         (\<lambda>results net. (first_or_null P results, net))
   \<and> find request query (Some (findOne_options options)) =
       request [JStr ''find'', query, JObj (findOne_options options)]
   \<and> (request [JStr ''find'', query, JObj (findOne_options options)] net = (Inr (JArr xs), net')
        \<longrightarrow> findOne P request query options net = (Inr (if xs = [] then JNull else hd xs), net')
          \<and> findOneFlexible P request query options net
              = (Inr (if xs = [] then JNull else hd xs), net'))"
  by (simp add: findOne_options_def map_of_obj_set_same findOne_def findOneFlexible_def
      find_def findFlexible_def find_requestArray_def and_then_def first_or_null_array)

text \<open>
  The theorem at the test configuration: a caller-supplied limit of 20 is sent as 1; an
  empty result gives \<^verbatim>\<open>null\<close>, a result of one item gives that item.
\<close>

theorem C3_findOne_witness:
  "RaukInventoryClient_request (mock_platform found_nothing) test_client
       [JStr ''find'', sku_query ''X'', JObj (findOne_options (Some [(''limit'', JNum 20)]))] []
     = (Inr (JArr []),
        [signature_request test_client ''test-signature''
           (JSON_stringify (JArr [JStr ''find'', sku_query ''X'', JObj [(''limit'', JNum 1)]]))])
   \<and> findOne (mock_platform found_nothing)
        (RaukInventoryClient_request (mock_platform found_nothing) test_client)
        (sku_query ''X'') (Some [(''limit'', JNum 20)]) []
     = (Inr JNull,
        [signature_request test_client ''test-signature''
           (JSON_stringify (JArr [JStr ''find'', sku_query ''X'', JObj [(''limit'', JNum 1)]]))])
   \<and> findOneFlexible (mock_platform found_items)
        (RaukInventory_request (mock_platform found_items) test_client)
        (sku_query ''X'') None []
     = (Inr item_001,
        [signature_request test_client ''test-signature''
           (JSON_stringify (JArr [JStr ''find'', sku_query ''X'', JObj [(''limit'', JNum 1)]]))])"
proof -
  let ?P = "mock_platform found_nothing"
  let ?Q = "mock_platform found_items"
  let ?log = "[signature_request test_client ''test-signature''
           (JSON_stringify (JArr [JStr ''find'', sku_query ''X'', JObj [(''limit'', JNum 1)]]))]"
  have opts: "findOne_options (Some [(''limit'', JNum 20)]) = [(''limit'', JNum 1)]"
    "findOne_options None = [(''limit'', JNum 1)]"
    by (simp_all add: findOne_options_def)
  have sent: "RaukInventoryClient_request ?P test_client
       [JStr ''find'', sku_query ''X'', JObj (findOne_options (Some [(''limit'', JNum 20)]))] []
     = (Inr (JArr []), ?log)"
    by (simp add: opts RaukInventoryClient_request_def mock_platform_def Let_def
        found_nothing_def try_block_def catch_block_def)
  have sent': "RaukInventory_request ?Q test_client
       [JStr ''find'', sku_query ''X'', JObj (findOne_options None)] []
     = (Inr (JArr [item_001]), ?log)"
    by (simp add: opts RaukInventory_request_def mock_platform_def Let_def
        found_items_def try_block_def catch_block_def)
  from C3_findOne_limit_one_first_or_null
    [of "Some [(''limit'', JNum 20)]" ?P "RaukInventoryClient_request ?P test_client"
        "sku_query ''X''" "[]" "[]" ?log] sent
  have none: "findOne ?P (RaukInventoryClient_request ?P test_client)
        (sku_query ''X'') (Some [(''limit'', JNum 20)]) []
          = (Inr (if ([]::json list) = [] then JNull else hd []), ?log)"
    by blast
  from C3_findOne_limit_one_first_or_null
    [of None ?Q "RaukInventory_request ?Q test_client"
        "sku_query ''X''" "[]" "[item_001]" ?log] sent'
  have one: "findOneFlexible ?Q (RaukInventory_request ?Q test_client)
        (sku_query ''X'') None []
          = (Inr (if [item_001] = [] then JNull else hd [item_001]), ?log)"
    by blast
  from sent none one show ?thesis by simp
qed

section \<open>Properties of construction\<close>

text \<open>
  Claim C6, as amended. When \<^verbatim>\<open>apiKeyId\<close>, \<^verbatim>\<open>apiSecret\<close> or
  \<^verbatim>\<open>apiPublicKey\<close> is empty, the constructor of either class throws at once a
  plain \<^verbatim>\<open>Error\<close> with the message "apiKeyId, apiSecret and apiPublicKey are
  required" (the code has no class of its own for configuration failures), and the log of
  network requests is what it was: no request is made. When the three
  are non-empty the construction succeeds, again without a request, and
  \<^verbatim>\<open>apiBaseUrl\<close> is the production host \<^verbatim>\<open>https://inventory.rauk.app\<close> when
  it is omitted and the given one otherwise.
\<close>

theorem C6_constructor_validates_eagerly:
  "(keyId = [] \<or> secret = [] \<or> publicKey = [] \<longrightarrow>
      new_RaukInventoryClient keyId secret publicKey baseUrl net
        = (Inl (new_Error ''apiKeyId, apiSecret and apiPublicKey are required''), net)
      \<and> new_RaukInventory keyId secret publicKey baseUrl net
        = (Inl (new_Error ''apiKeyId, apiSecret and apiPublicKey are required''), net))
   \<and> (keyId \<noteq> [] \<and> secret \<noteq> [] \<and> publicKey \<noteq> [] \<longrightarrow>
      new_RaukInventoryClient keyId secret publicKey None net
        = (Inr \<lparr> apiKeyId = keyId, apiSecret = secret, apiPublicKey = publicKey,
                  apiBaseUrl = ''https://inventory.rauk.app'' \<rparr>, net)
      \<and> new_RaukInventoryClient keyId secret publicKey (Some u) net
        = (Inr \<lparr> apiKeyId = keyId, apiSecret = secret, apiPublicKey = publicKey,
                  apiBaseUrl = u \<rparr>, net)
      \<and> new_RaukInventory keyId secret publicKey None net
        = (Inr \<lparr> apiKeyId = keyId, apiSecret = secret, apiPublicKey = publicKey,
                  apiBaseUrl = ''https://inventory.rauk.app'' \<rparr>, net)
      \<and> new_RaukInventory keyId secret publicKey (Some u) net
        = (Inr \<lparr> apiKeyId = keyId, apiSecret = secret, apiPublicKey = publicKey,
                  apiBaseUrl = u \<rparr>, net))"
  by (simp add: new_RaukInventoryClient_def new_RaukInventory_def)

text \<open>
  The theorem on the configurations of the test suite: all fields empty, one field empty,
  a complete configuration without and with a base URL. The log stays empty.
\<close>

theorem C6_constructor_witness:
  "new_RaukInventory [] [] [] None []
      = (Inl (new_Error ''apiKeyId, apiSecret and apiPublicKey are required''), [])
   \<and> new_RaukInventoryClient ''test-key'' [] ''test-public''
        (Some ''https://inventory.rauk.local'') []
      = (Inl (new_Error ''apiKeyId, apiSecret and apiPublicKey are required''), [])
   \<and> new_RaukInventoryClient ''test-key'' ''test-secret'' ''test-public'' None []
      = (Inr \<lparr> apiKeyId = ''test-key'', apiSecret = ''test-secret'',
                apiPublicKey = ''test-public'',
                apiBaseUrl = ''https://inventory.rauk.app'' \<rparr>, [])
   \<and> new_RaukInventory ''test-key'' ''test-secret'' ''test-public''
        (Some ''https://inventory.rauk.local'') []
      = (Inr test_client, [])"
  using C6_constructor_validates_eagerly [of "[]" "[]" "[]" None "[]"]
    C6_constructor_validates_eagerly
      [of "''test-key''" "[]" "''test-public''" "Some ''https://inventory.rauk.local''" "[]"]
    C6_constructor_validates_eagerly
      [of "''test-key''" "''test-secret''" "''test-public''" _ "[]"
          "''https://inventory.rauk.local''"]
  by (simp add: test_client_def)

text \<open>
  Claim C6 as stated fails on the class of the thrown value: with the incomplete
  configuration of the test "should throw if config is incomplete" both constructors
  throw a value whose class name is \<^verbatim>\<open>Error\<close>, not
  \<^verbatim>\<open>ConfigurationError\<close>.
\<close>

theorem C6_plain_error_counterexample:
  "map_sum error_name apiBaseUrl (fst (new_RaukInventoryClient [] [] [] None [])) = Inl ''Error''
   \<and> map_sum error_name apiBaseUrl (fst (new_RaukInventory [] [] [] None [])) = Inl ''Error''
   \<and> map_sum error_name apiBaseUrl (fst (new_RaukInventoryClient [] [] [] None []))
       \<noteq> Inl ''ConfigurationError''
   \<and> map_sum error_name apiBaseUrl (fst (new_RaukInventory [] [] [] None []))
       \<noteq> Inl ''ConfigurationError''"
  by (simp add: new_RaukInventoryClient_def new_RaukInventory_def new_Error_def)

text \<open>
  Claim C7. The class \<^verbatim>\<open>RaukInventory\<close> of index.ts keeps no instance: its
  constructor checks the three credentials and nothing else. Constructing it twice with
  the configuration of the test "should throw if instantiated twice" succeeds both times;
  the second construction does not fail with "RaukInventory is already initialized".
\<close>

theorem C7_second_construction_succeeds:
  "and_then
     (new_RaukInventory ''test-key'' ''test-secret'' ''test-public''
        (Some ''https://inventory.rauk.local''))
     (\<lambda>first. new_RaukInventory ''test-key'' ''test-secret'' ''test-public''
        (Some ''https://inventory.rauk.local'')) []
   = (Inr test_client, [])"
  by (simp add: and_then_def new_RaukInventory_def test_client_def)

section \<open>updateBatch\<close>

text \<open>
  \<^verbatim>\<open>RaukInventoryClient.updateBatch\<close> makes one \<^verbatim>\<open>bulkWrite\<close> request whose
  operations are one \<^verbatim>\<open>updateOne\<close> per pair, in order, with the pair's query as
  filter and the pair's update document as update.
\<close>

lemma RaukInventoryClient_updateBatch_entries:
  "RaukInventoryClient_updateBatch request updates options
     = request (bulkWrite_requestArray (JArr (RaukInventoryClient_bulkOperations updates)) options)
   \<and> length (RaukInventoryClient_bulkOperations updates) = length updates
   \<and> (\<forall>i < length updates.
         RaukInventoryClient_bulkOperations updates ! i
           = JObj [(''updateOne'', JObj [(''filter'', fst (updates ! i)),
                                         (''update'', snd (updates ! i))])])"
  by (simp add: RaukInventoryClient_updateBatch_def bulkWrite_def
      RaukInventoryClient_bulkOperations_def split_beta)

text \<open>
  Claim C2. \<^verbatim>\<open>RaukInventory.updateBatch\<close> of index.ts writes
  \<^verbatim>\<open>update: { update }\<close>: on two pairs it sends one \<^verbatim>\<open>bulkWrite\<close> with two
  \<^verbatim>\<open>updateOne\<close> entries in order and the right filters, but the update of each
  entry is an object with the single key \<^verbatim>\<open>update\<close> that holds the pair's update
  document, not the document itself.
\<close>

theorem C2_RaukInventory_updateBatch_wraps_update:
  "map sent_tuple
     (snd (RaukInventory_updateBatch
            (RaukInventory_request (mock_platform found_items) test_client)
            [(sku_query ''ITEM-001'', JObj [(''packageQuantity'', JNum 20)]),
             (sku_query ''ITEM-002'',
              JObj [(''currentLocation'', JObj [(''id'', JStr ''warehouse-2'')])])]
            None []))
   = [[JStr ''bulkWrite'',
       JArr [JObj [(''updateOne'',
                    JObj [(''filter'', sku_query ''ITEM-001''),
                          (''update'',
                           JObj [(''update'', JObj [(''packageQuantity'', JNum 20)])])])],
             JObj [(''updateOne'',
                    JObj [(''filter'', sku_query ''ITEM-002''),
                          (''update'',
                           JObj [(''update'',
                                  JObj [(''currentLocation'',
                                         JObj [(''id'', JStr ''warehouse-2'')])])])])]]]]"
  by (simp add: RaukInventory_updateBatch_def RaukInventory_bulkOperations_def bulkWrite_def
      bulkWrite_requestArray_def RaukInventory_request_def mock_platform_def Let_def
      sent_tuple_def signature_request_def)

section \<open>What goes to fetch\<close>

text \<open>
  When signing succeeds, \<^verbatim>\<open>request\<close> of \<^verbatim>\<open>RaukInventoryClient\<close> and of the first
  \<^verbatim>\<open>RaukInventory\<close> adds exactly one request to the log: a POST to
  \<^verbatim>\<open>{apiBaseUrl}/query\<close> whose body is the serialised tuple that was signed and whose
  \<^verbatim>\<open>Rai-Signature\<close> header is the signature.
\<close>

lemma request_issues_one_signed_post:
  assumes "signRequest P \<lparr> apiKeyId = apiKeyId this, apiSecret = apiSecret this,
                            apiPublicKey = apiPublicKey this \<rparr> requestArray = Inr sig"
  shows "snd (RaukInventoryClient_request P this requestArray net)
           = net @ [\<lparr> url = apiBaseUrl this @ ''/query'', request_method = ''POST'',
                      body = Some (JSON_stringify (JArr requestArray)),
                      headers = [(''Rai-Signature'', sig),
                                 (''Content-Type'', ''application/json'')] \<rparr>]"
    and "snd (RaukInventory_request P this requestArray net)
           = net @ [\<lparr> url = apiBaseUrl this @ ''/query'', request_method = ''POST'',
                      body = Some (JSON_stringify (JArr requestArray)),
                      headers = [(''Rai-Signature'', sig),
                                 (''Content-Type'', ''application/json'')] \<rparr>]"
  using assms
  by (simp_all add: RaukInventoryClient_request_def RaukInventory_request_def Let_def
      signature_request_def)

text \<open>
  Claim C4. The second \<^verbatim>\<open>RaukInventory.request\<close> of index.ts passes no
  \<^verbatim>\<open>body\<close> to \<^verbatim>\<open>fetch\<close>: a \<^verbatim>\<open>find\<close> with the test configuration issues one
  POST to \<^verbatim>\<open>https://inventory.rauk.local/query\<close> with the signature in the
  \<^verbatim>\<open>Authorization\<close> header and without the command tuple.
\<close>

theorem C4_second_revision_sends_no_body:
  "snd (find (RaukInventory_request_rev2 (mock_platform found_items) test_client)
          (sku_query ''ITEM-001'') None [])
   = [\<lparr> url = ''https://inventory.rauk.local/query'', request_method = ''POST'',
         body = None,
         headers = [(''Authorization'', ''Bearer test-signature''),
                    (''Content-Type'', ''application/json'')] \<rparr>]"
  by (simp add: find_def find_requestArray_def RaukInventory_request_rev2_def mock_platform_def
      Let_def bearer_request_def test_client_def)

section \<open>Failures of a request\<close>

text \<open>
  Claim C1. On the response of the test "should throw RaukValidationError for validation
  failures" (status 400, \<^verbatim>\<open>error.name\<close> "ValidationException", two entries in
  \<^verbatim>\<open>error.errors\<close>), \<^verbatim>\<open>find\<close> of both classes rejects with a plain
  \<^verbatim>\<open>Error\<close> whose message is "Failed to request": the error built from the body is
  thrown inside \<^verbatim>\<open>try\<close> and replaced by the \<^verbatim>\<open>catch\<close> block, so the rejection
  carries no validation entries and no status code.
\<close>

theorem C1_validation_response_rejects_generic_error:
  "fst (find (RaukInventoryClient_request (mock_platform validation_failure) test_client)
          (sku_query ''INVALID'') None [])
     = Inl (JsError ''Error'' ''Failed to request'')
   \<and> fst (find (RaukInventory_request (mock_platform validation_failure) test_client)
          (sku_query ''INVALID'') None [])
     = Inl (JsError ''Error'' ''Failed to request'')"
  by (simp add: find_def find_requestArray_def RaukInventoryClient_request_def
      RaukInventory_request_def mock_platform_def Let_def try_block_def catch_block_def
      validation_failure_def new_Error_def)

text \<open>
  Claim C5. When \<^verbatim>\<open>fetch\<close> throws \<^verbatim>\<open>TypeError("fetch failed")\<close>, as in the test
  "should handle network failures gracefully", \<^verbatim>\<open>find\<close> of both classes rejects with a
  plain \<^verbatim>\<open>Error\<close> whose message is "Failed to request"; the message of the thrown
  error is not kept anywhere in the rejection.
\<close>

theorem C5_transport_throw_rejects_generic_error:
  "fst (find (RaukInventoryClient_request (mock_platform fetch_failed) test_client)
          (sku_query ''TEST'') None [])
     = Inl (JsError ''Error'' ''Failed to request'')
   \<and> fst (find (RaukInventory_request (mock_platform fetch_failed) test_client)
          (sku_query ''TEST'') None [])
     = Inl (JsError ''Error'' ''Failed to request'')"
  by (simp add: find_def find_requestArray_def RaukInventoryClient_request_def
      RaukInventory_request_def mock_platform_def Let_def try_block_def catch_block_def
      fetch_failed_def new_Error_def)

text \<open>
  Claim C10, as amended. When signing succeeds and either \<^verbatim>\<open>fetch\<close> throws or the
  response is not ok (whether or not its body parses, whatever its status and its
  \<^verbatim>\<open>error\<close> object), \<^verbatim>\<open>request\<close> of \<^verbatim>\<open>RaukInventoryClient\<close> and of the
  first \<^verbatim>\<open>RaukInventory\<close> rejects with the \<^verbatim>\<open>Error\<close> whose message is
  "Failed to request".
\<close>

theorem C10_failures_become_failed_to_request:
  assumes "signRequest P \<lparr> apiKeyId = apiKeyId this, apiSecret = apiSecret this,
                            apiPublicKey = apiPublicKey this \<rparr> requestArray = Inr sig"
    and "fetch P (signature_request this sig (JSON_stringify (JArr requestArray))) = FetchThrows e
         \<or> (fetch P (signature_request this sig (JSON_stringify (JArr requestArray)))
               = FetchResponds r \<and> \<not> ok r)"
  shows "fst (RaukInventoryClient_request P this requestArray net)
           = Inl (new_Error ''Failed to request'')
         \<and> fst (RaukInventory_request P this requestArray net)
           = Inl (new_Error ''Failed to request'')"
  using assms
  by (auto simp add: RaukInventoryClient_request_def RaukInventory_request_def Let_def
      try_block_def catch_block_def split: sum.splits)

text \<open>
  The theorem on the mocks of the test suite: \<^verbatim>\<open>fetch\<close> throwing
  \<^verbatim>\<open>TypeError("fetch failed")\<close>, and a response with status 500 and an
  \<^verbatim>\<open>error.message\<close>.
\<close>

theorem C10_failures_witness:
  "fst (RaukInventoryClient_request (mock_platform fetch_failed) test_client
          [JStr ''find'', sku_query ''TEST''] [])
     = Inl (new_Error ''Failed to request'')
   \<and> fst (RaukInventory_request (mock_platform server_failure) test_client
          [JStr ''find'', sku_query ''TEST''] [])
     = Inl (new_Error ''Failed to request'')"
proof -
  let ?tuple = "[JStr ''find'', sku_query ''TEST'']"
  let ?req = "signature_request test_client ''test-signature'' (JSON_stringify (JArr ?tuple))"
  let ?r = "\<lparr> ok = False, status = 500, statusText = ''Internal Server Error'',
       json_result = Inr (JObj [(''success'', JBool False),
                                (''error'', JObj [(''message'', JStr ''Internal server error''),
                                                  (''name'', JStr ''ServerError'')])]) \<rparr>"
  have signed: "signRequest (mock_platform outcome)
      \<lparr> apiKeyId = apiKeyId test_client, apiSecret = apiSecret test_client,
        apiPublicKey = apiPublicKey test_client \<rparr> ?tuple = Inr ''test-signature''" for outcome
    by (simp add: mock_platform_def)
  have thrown: "fetch (mock_platform fetch_failed) ?req
                  = FetchThrows (JsError ''TypeError'' ''fetch failed'')
                \<or> (fetch (mock_platform fetch_failed) ?req = FetchResponds ?r \<and> \<not> ok ?r)"
    by (simp add: mock_platform_def fetch_failed_def)
  have refused: "fetch (mock_platform server_failure) ?req
                  = FetchThrows (JsError ''TypeError'' ''fetch failed'')
                \<or> (fetch (mock_platform server_failure) ?req = FetchResponds ?r \<and> \<not> ok ?r)"
    by (simp add: mock_platform_def server_failure_def)
  from C10_failures_become_failed_to_request [OF signed thrown, of "[]"]
    C10_failures_become_failed_to_request [OF signed refused, of "[]"]
  show ?thesis by blast
qed

text \<open>
  Claim C10 as stated fails on an unparseable body of a successful response: the promise
  of \<^verbatim>\<open>response.json()\<close> is returned, not awaited, inside \<^verbatim>\<open>try\<close>, so the
  parser's \<^verbatim>\<open>SyntaxError\<close> reaches the caller as it is.
\<close>

theorem C10_unparseable_success_counterexample:
  "fst (find (RaukInventoryClient_request (mock_platform unparseable_success) test_client)
          (sku_query ''TEST'') None [])
     = Inl (JsError ''SyntaxError'' ''Unexpected end of JSON input'')
   \<and> fst (find (RaukInventoryClient_request (mock_platform unparseable_success) test_client)
          (sku_query ''TEST'') None [])
     \<noteq> Inl (new_Error ''Failed to request'')"
  by (simp add: find_def find_requestArray_def RaukInventoryClient_request_def
      mock_platform_def Let_def try_block_def catch_block_def
      unparseable_success_def new_Error_def)

section \<open>The command tuples\<close>

text \<open>
  Claim C8, as amended. Every operation that builds its own tuple (\<^verbatim>\<open>create\<close>,
  \<^verbatim>\<open>find\<close>, \<^verbatim>\<open>findFlexible\<close>, \<^verbatim>\<open>update\<close>, \<^verbatim>\<open>updateMany\<close>,
  \<^verbatim>\<open>delete\<close>, \<^verbatim>\<open>deleteOne\<close>, \<^verbatim>\<open>deleteMany\<close>, \<^verbatim>\<open>aggregate\<close>,
  \<^verbatim>\<open>bulkWrite\<close>) and \<^verbatim>\<open>updateBatch\<close>, which goes through
  \<^verbatim>\<open>bulkWrite\<close>, hands \<^verbatim>\<open>request\<close> the tuple of its name and arguments when
  options are omitted, and that same tuple with the options object appended as last
  element when they are supplied. \<^verbatim>\<open>findOne\<close> and \<^verbatim>\<open>findOneFlexible\<close> always
  send the three-element tuple \<^verbatim>\<open>["find", query, {...options, limit: 1}]\<close>.
\<close>

theorem C8_options_last_or_absent:
  "create request item None = request [JStr ''insertOne'', item]
   \<and> create request item (Some opts) = request ([JStr ''insertOne'', item] @ [JObj opts])
   \<and> find request query None = request [JStr ''find'', query]
   \<and> find request query (Some opts) = request ([JStr ''find'', query] @ [JObj opts])
   \<and> findFlexible request query None = request [JStr ''find'', query]
   \<and> findFlexible request query (Some opts) = request ([JStr ''find'', query] @ [JObj opts])
   \<and> update request query upd None = request [JStr ''findOneAndUpdate'', query, upd]
   \<and> update request query upd (Some opts)
       = request ([JStr ''findOneAndUpdate'', query, upd] @ [JObj opts])
   \<and> updateMany request query upd None = request [JStr ''updateMany'', query, upd]
   \<and> updateMany request query upd (Some opts)
       = request ([JStr ''updateMany'', query, upd] @ [JObj opts])
   \<and> delete request query None
       = request [JStr ''findOneAndUpdate'', query,
                  JObj [(''deleted'', JObj [(''status'', JBool True)])]]
   \<and> delete request query (Some opts)
       = request ([JStr ''findOneAndUpdate'', query,
                   JObj [(''deleted'', JObj [(''status'', JBool True)])]] @ [JObj opts])
   \<and> deleteOne request query None = request [JStr ''deleteOne'', query]
   \<and> deleteOne request query (Some opts) = request ([JStr ''deleteOne'', query] @ [JObj opts])
   \<and> deleteMany request query None = request [JStr ''deleteMany'', query]
   \<and> deleteMany request query (Some opts) = request ([JStr ''deleteMany'', query] @ [JObj opts])
   \<and> aggregate request stages None = request [JStr ''aggregate'', stages]
   \<and> aggregate request stages (Some opts) = request ([JStr ''aggregate'', stages] @ [JObj opts])
   \<and> aggregate_rev2 request dto None = request [JStr ''aggregate'', pipeline dto]
   \<and> aggregate_rev2 request dto (Some opts)
       = request ([JStr ''aggregate'', pipeline dto] @ [JObj opts])
   \<and> bulkWrite request operations None = request [JStr ''bulkWrite'', operations]
   \<and> bulkWrite request operations (Some opts)
       = request ([JStr ''bulkWrite'', operations] @ [JObj opts])
   \<and> RaukInventoryClient_updateBatch request updates None
       = request [JStr ''bulkWrite'', JArr (RaukInventoryClient_bulkOperations updates)]
   \<and> RaukInventoryClient_updateBatch request updates (Some opts)
       = request ([JStr ''bulkWrite'', JArr (RaukInventoryClient_bulkOperations updates)]
                  @ [JObj opts])
   \<and> RaukInventory_updateBatch request updates None
       = request [JStr ''bulkWrite'', JArr (RaukInventory_bulkOperations updates)]
   \<and> RaukInventory_updateBatch request updates (Some opts)
       = request ([JStr ''bulkWrite'', JArr (RaukInventory_bulkOperations updates)]
                  @ [JObj opts])
   \<and> findOne P request query options
       = and_then (request [JStr ''find'', query, JObj (findOne_options options)])
           (\<lambda>results net. (first_or_null P results, net))
   \<and> findOneFlexible P request query options
       = and_then (request [JStr ''find'', query, JObj (findOne_options options)])
           (\<lambda>results net. (first_or_null P results, net))"
  by (simp add: create_def create_requestArray_def find_def find_requestArray_def
      findFlexible_def update_def update_requestArray_def updateMany_def
      updateMany_requestArray_def delete_def delete_requestArray_def deleteOne_def
      deleteOne_requestArray_def deleteMany_def deleteMany_requestArray_def aggregate_def
      aggregate_requestArray_def aggregate_rev2_def bulkWrite_def bulkWrite_requestArray_def
      RaukInventoryClient_updateBatch_def RaukInventory_updateBatch_def findOne_def
      findOneFlexible_def)

text \<open>
  Claim C8 as stated fails for \<^verbatim>\<open>findOne\<close>: called without options it sends
  \<^verbatim>\<open>["find", query, {limit: 1}]\<close>, which is not shorter than the tuple it sends when
  options are supplied, and with options supplied the last element is a copy with
  \<^verbatim>\<open>limit\<close> added, not the caller's object.
\<close>

theorem C8_findOne_counterexample:
  "sent_tuple (hd (snd (findOne (mock_platform found_items)
       (RaukInventoryClient_request (mock_platform found_items) test_client)
       (sku_query ''X'') None [])))
     = [JStr ''find'', sku_query ''X'', JObj [(''limit'', JNum 1)]]
   \<and> sent_tuple (hd (snd (findOne (mock_platform found_items)
       (RaukInventoryClient_request (mock_platform found_items) test_client)
       (sku_query ''X'') (Some [(''select'', JObj [(''sku'', JNum 1)])]) [])))
     = [JStr ''find'', sku_query ''X'',
        JObj [(''select'', JObj [(''sku'', JNum 1)]), (''limit'', JNum 1)]]
   \<and> \<not> length (sent_tuple (hd (snd (findOne (mock_platform found_items)
           (RaukInventoryClient_request (mock_platform found_items) test_client)
           (sku_query ''X'') None []))))
       < length (sent_tuple (hd (snd (findOne (mock_platform found_items)
           (RaukInventoryClient_request (mock_platform found_items) test_client)
           (sku_query ''X'') (Some [(''select'', JObj [(''sku'', JNum 1)])]) []))))"
  by (simp add: findOne_def find_def find_requestArray_def findOne_options_def and_then_def
      RaukInventoryClient_request_def mock_platform_def Let_def sent_tuple_def
      signature_request_def try_block_def catch_block_def found_items_def)

text \<open>
  Claim C9. \<^verbatim>\<open>delete\<close> is the soft delete: it hands \<^verbatim>\<open>request\<close> the tuple
  \<^verbatim>\<open>["findOneAndUpdate", query, {deleted: {status: true}}]\<close>, followed by the options
  when they are supplied. \<^verbatim>\<open>deleteOne\<close> and \<^verbatim>\<open>deleteMany\<close> hand it
  \<^verbatim>\<open>["deleteOne", query]\<close> and \<^verbatim>\<open>["deleteMany", query]\<close>, followed by the
  options when they are supplied, with no update document.
\<close>

theorem C9_delete_tuples:
  "delete request query None
     = request [JStr ''findOneAndUpdate'', query,
                JObj [(''deleted'', JObj [(''status'', JBool True)])]]
   \<and> delete request query (Some opts)
     = request [JStr ''findOneAndUpdate'', query,
                JObj [(''deleted'', JObj [(''status'', JBool True)])], JObj opts]
   \<and> deleteOne request query None = request [JStr ''deleteOne'', query]
   \<and> deleteOne request query (Some opts) = request [JStr ''deleteOne'', query, JObj opts]
   \<and> deleteMany request query None = request [JStr ''deleteMany'', query]
   \<and> deleteMany request query (Some opts) = request [JStr ''deleteMany'', query, JObj opts]"
  by (simp add: delete_def delete_requestArray_def deleteOne_def deleteOne_requestArray_def
      deleteMany_def deleteMany_requestArray_def)

end
